theory Spec2Isabelle
  imports Complex_Main
begin

section \<open>Data model of the simulation dashboard\<close>

text \<open>
  The dashboard (\<^verbatim>\<open>SimulationDashboard\<close>) is a React component: its state is a
  handful of \<^verbatim>\<open>useState\<close> cells, its operations are callbacks that read the cells of
  the render they were created in and write new values. The embedding keeps the cells in
  one record and passes it through every callback. Identifiers and statuses are the
  strings the backend sends; JavaScript numbers that hold frame indices and percentages
  are \<open>int\<close>, the projections and times are \<open>real\<close> (no property below computes with
  them).
\<close>

text \<open>The \<^verbatim>\<open>results\<close> object a job may carry: only its presence is ever tested.\<close>

datatype results_ref = Results_ref nat

text \<open>\<^verbatim>\<open>PipelineJob\<close> (the typedef at the head of the dashboard source).\<close>

record job =
  job_id :: string
  status :: string
  job_name :: string
  job_type :: string
  progress :: int
  startTime :: string
  currentStep :: int
  job_results :: "results_ref option"

text \<open>\<^verbatim>\<open>PCAData\<close> (PCAPlot.jsx): one projected frame.\<close>

record pca_point =
  frame :: int
  pc1 :: real
  pc2 :: real
  pc3 :: real
  pca_time_ns :: real
  cluster :: "int option"

text \<open>\<^verbatim>\<open>SimulationResults\<close>: what \<^verbatim>\<open>GET /api/v1/jobs/{id}/results\<close> answers.\<close>

record simulation_results =
  molecules :: "string list"
  pcaData :: "pca_point list"
  trajectoryPath :: string
  metrics :: "(string \<times> real) list"

text \<open>The form state \<^verbatim>\<open>pipelineConfig\<close>.\<close>

record pipeline_config =
  cfg_type :: string
  cfg_name :: string
  target_molecule :: string
  target_protein :: string
  parameters :: "(string \<times> string) list"

text \<open>
  Every network call of the dashboard is a \<^verbatim>\<open>fetch\<close>. The requests are values, so that
  the model can keep a log of what was sent.
\<close>

datatype request =
    Get_jobs
  | Get_results string
  | Post_start_pipeline pipeline_config
  | Post_cancel string

text \<open>
  What comes back from \<^verbatim>\<open>await fetch(...)\<close> followed by \<^verbatim>\<open>response.json()\<close>:
  the promise of \<^verbatim>\<open>fetch\<close> rejects (\<open>Network_error\<close>), \<^verbatim>\<open>response.ok\<close> is false
  (\<open>Http_error\<close>), the body does not parse (\<open>Body_error\<close>), or the parsed body.
  The first and the third end in the \<^verbatim>\<open>catch\<close> block, which only logs to the console;
  the second skips the \<^verbatim>\<open>if (response.ok)\<close> block.
\<close>

datatype 'a response = Network_error | Http_error | Body_error | Success 'a

text \<open>
  The state cells of \<^verbatim>\<open>SimulationDashboard\<close>, in the order of their \<^verbatim>\<open>useState\<close>
  calls, and the two things the component owns outside React state: the timer of the
  polling effect (\<open>interval\<close> holds the period in milliseconds while a timer is set) and
  the requests sent so far, oldest first (\<open>http_log\<close>).
\<close>

record dashboard =
  jobs :: "job list"
  selectedJob :: "job option"
  results :: "simulation_results option"
  isPolling :: bool
  activeTab :: string
  currentFrame :: int
  showNewPipeline :: bool
  pipelineConfig :: pipeline_config
  interval :: "nat option"
  http_log :: "request list"

definition empty_config :: pipeline_config where
  "empty_config =
     \<lparr>cfg_type = ''full_pipeline'', cfg_name = '''', target_molecule = '''',
      target_protein = '''', parameters = []\<rparr>"

text \<open>The initial values of the \<^verbatim>\<open>useState\<close> calls; nothing sent, no timer.\<close>

definition dashboard_init :: dashboard where
  "dashboard_init =
     \<lparr>jobs = [], selectedJob = None, results = None, isPolling = False,
      activeTab = ''overview'', currentFrame = 0, showNewPipeline = False,
      pipelineConfig = empty_config, interval = None, http_log = []\<rparr>"

section \<open>Job status poller\<close>

text \<open>
  An \<^verbatim>\<open>async\<close> callback runs in two parts: up to its \<^verbatim>\<open>await fetch\<close> when it is
  called (the request leaves), and from there on when the response arrives. Each callback
  is embedded as these two parts, \<open>_fetch\<close> and \<open>_done\<close>; \<open>loadJobs\<close> also as
  their composition under the callback's own name (a call whose response arrives before
  anything else happens).

  \<^verbatim>\<open>loadResults(jobId)\<close>: on an ok response \<^verbatim>\<open>setResults(resultsData)\<close>, else nothing.
  The continuation never looks at \<^verbatim>\<open>jobId\<close> again, nor at the selected job.
\<close>

definition loadResults_fetch :: "string \<Rightarrow> dashboard \<Rightarrow> dashboard" where
  "loadResults_fetch jobId st = st\<lparr>http_log := http_log st @ [Get_results jobId]\<rparr>"

definition loadResults_done ::
  "string \<Rightarrow> simulation_results response \<Rightarrow> dashboard \<Rightarrow> dashboard" where
  "loadResults_done jobId resp st =
     (case resp of
        Success resultsData \<Rightarrow> st\<lparr>results := Some resultsData\<rparr>
      | _ \<Rightarrow> st)"

text \<open>
  \<^verbatim>\<open>loadJobs\<close> is created by \<^verbatim>\<open>useCallback(..., [selectedJob])\<close>: the \<^verbatim>\<open>selectedJob\<close>
  its body reads is the one of the render that created it, the argument \<open>sel\<close> of the
  continuation. On an ok response: \<^verbatim>\<open>setJobs(jobsData)\<close>; if a job is selected,
  \<^verbatim>\<open>jobsData.find(j => j.id === selectedJob.id)\<close>; if found, \<^verbatim>\<open>setSelectedJob(updated)\<close>
  and, when \<^verbatim>\<open>updated.status === 'completed' && updated.results\<close>,
  \<^verbatim>\<open>loadResults(updated.id)\<close>, whose request leaves at once and whose response is an
  event of its own.
\<close>

definition loadJobs_fetch :: "dashboard \<Rightarrow> dashboard" where
  "loadJobs_fetch st = st\<lparr>http_log := http_log st @ [Get_jobs]\<rparr>"

definition loadJobs_done ::
  "job option \<Rightarrow> job list response \<Rightarrow> dashboard \<Rightarrow> dashboard" where
  "loadJobs_done sel resp st =
     (case resp of
        Success jobsData \<Rightarrow>
          (let st1 = st\<lparr>jobs := jobsData\<rparr> in
           case sel of
             None \<Rightarrow> st1
           | Some s \<Rightarrow>
               (case find (\<lambda>j. job_id j = job_id s) jobsData of
                  None \<Rightarrow> st1
                | Some updated \<Rightarrow>
                    (let st2 = st1\<lparr>selectedJob := Some updated\<rparr> in
                     if status updated = ''completed'' \<and> job_results updated \<noteq> None
                     then loadResults_fetch (job_id updated) st2
                     else st2)))
      | _ \<Rightarrow> st)"

definition loadJobs :: "job list response \<Rightarrow> dashboard \<Rightarrow> dashboard" where
  "loadJobs resp st = loadJobs_done (selectedJob st) resp (loadJobs_fetch st)"

text \<open>
  A run of poll ticks, each answered with an ok job list before the next one is sent, as
  the 2000 ms timer produces them while nothing else happens.
\<close>

fun polls :: "job list list \<Rightarrow> dashboard \<Rightarrow> dashboard" where
  "polls [] st = st"
| "polls (jobsData # rest) st = polls rest (loadJobs (Success jobsData) st)"

text \<open>How many results requests for \<open>jobId\<close> have been sent.\<close>

definition results_fetches :: "string \<Rightarrow> dashboard \<Rightarrow> nat" where
  "results_fetches jobId st = count_list (http_log st) (Get_results jobId)"

text \<open>
  The test \<^verbatim>\<open>loadJobs\<close> applies to the entry it finds for an identifier:
  \<^verbatim>\<open>updated.status === 'completed' && updated.results\<close>.
\<close>

definition completed_entry :: "string \<Rightarrow> job list \<Rightarrow> bool" where
  "completed_entry jobId jobsData =
     (case find (\<lambda>j. job_id j = jobId) jobsData of
        None \<Rightarrow> False
      | Some updated \<Rightarrow> status updated = ''completed'' \<and> job_results updated \<noteq> None)"

section \<open>Pipeline launch\<close>

text \<open>
  \<^verbatim>\<open>startPipeline\<close> posts \<^verbatim>\<open>JSON.stringify(pipelineConfig)\<close> with no test of its own on
  the configuration. On an ok response the new job is put in front of the list and
  selected, the form is closed and reset, and \<^verbatim>\<open>setIsPolling(true)\<close>.
\<close>

definition startPipeline_fetch :: "dashboard \<Rightarrow> dashboard" where
  "startPipeline_fetch st =
     st\<lparr>http_log := http_log st @ [Post_start_pipeline (pipelineConfig st)]\<rparr>"

definition startPipeline_done :: "job response \<Rightarrow> dashboard \<Rightarrow> dashboard" where
  "startPipeline_done resp st =
     (case resp of
        Success newJob \<Rightarrow>
          st\<lparr>jobs := newJob # jobs st, selectedJob := Some newJob,
             showNewPipeline := False, pipelineConfig := empty_config,
             isPolling := True\<rparr>
      | _ \<Rightarrow> st)"

text \<open>
  The submit button of the form:
  \<^verbatim>\<open>onClick={startPipeline} disabled={!pipelineConfig.name || !pipelineConfig.target_molecule}\<close>.
  Both fields are strings of text inputs, falsy exactly when empty. A disabled button
  does not run its \<^verbatim>\<open>onClick\<close>.
\<close>

definition submit_disabled :: "pipeline_config \<Rightarrow> bool" where
  "submit_disabled cfg = (cfg_name cfg = [] \<or> target_molecule cfg = [])"

definition submit_click :: "dashboard \<Rightarrow> dashboard" where
  "submit_click st =
     (if submit_disabled (pipelineConfig st) then st else startPipeline_fetch st)"

text \<open>
  The same click with its outcome as a value: \<open>Inl\<close> an error if the click failed with
  one, \<open>Inr\<close> the state it leaves otherwise. The disabled button ignores the click, and
  \<^verbatim>\<open>startPipeline\<close> wraps all it does in \<^verbatim>\<open>try\<close> and \<^verbatim>\<open>catch\<close>, which logs to the
  console: neither branch fails, and the dashboard has no state cell for an error.
\<close>

datatype error = ValidationError

definition submit_button :: "dashboard \<Rightarrow> error + dashboard" where
  "submit_button st =
     (if submit_disabled (pipelineConfig st) then Inr st
      else Inr (startPipeline_fetch st))"

text \<open>A log in which every posted configuration has a name and a target molecule.\<close>

definition posts_valid :: "request list \<Rightarrow> bool" where
  "posts_valid sent =
     list_all (\<lambda>r. case r of Post_start_pipeline cfg \<Rightarrow> \<not> submit_disabled cfg | _ \<Rightarrow> True)
       sent"

text \<open>
  \<^verbatim>\<open>cancelJob(jobId)\<close>: a POST with no body; on an ok response \<^verbatim>\<open>loadJobs()\<close> is
  called at once.
\<close>

definition cancelJob_fetch :: "string \<Rightarrow> dashboard \<Rightarrow> dashboard" where
  "cancelJob_fetch jobId st = st\<lparr>http_log := http_log st @ [Post_cancel jobId]\<rparr>"

definition cancelJob_done :: "unit response \<Rightarrow> dashboard \<Rightarrow> dashboard" where
  "cancelJob_done resp st =
     (case resp of
        Success _ \<Rightarrow> loadJobs_fetch st
      | _ \<Rightarrow> st)"

section \<open>Frame cursor and the two widgets\<close>

text \<open>
  \<^verbatim>\<open>handlePCAPointClick\<close> is \<^verbatim>\<open>setCurrentFrame(frame)\<close>; the viewer's
  \<^verbatim>\<open>onFrameChange\<close> prop is \<^verbatim>\<open>setCurrentFrame\<close> itself. The card of a job in the list
  has \<^verbatim>\<open>onClick={() => setSelectedJob(job)}\<close>, and nothing else.
\<close>

definition handlePCAPointClick :: "int \<Rightarrow> dashboard \<Rightarrow> dashboard" where
  "handlePCAPointClick frame_arg st = st\<lparr>currentFrame := frame_arg\<rparr>"

definition select_job :: "job \<Rightarrow> dashboard \<Rightarrow> dashboard" where
  "select_job j st = st\<lparr>selectedJob := Some j\<rparr>"

text \<open>
  What the visualization tab hands to the widgets:
  \<^verbatim>\<open>structureUrl={results?.trajectoryPath} currentFrame={currentFrame}\<close> to the viewer,
  \<^verbatim>\<open>pcaData={results?.pcaData || []} currentFrame={currentFrame}\<close> to the plot. The tab
  is rendered when a job is selected and \<^verbatim>\<open>activeTab === 'visualization'\<close>. The results
  tab shows \<^verbatim>\<open>results.molecules?.length || 0\<close> and the metrics when \<^verbatim>\<open>results\<close> is set.
\<close>

record viewer_props =
  structureUrl :: "string option"
  viewer_frame :: int

record plot_props =
  plot_data :: "pca_point list"
  plot_frame :: int

definition render_viewer :: "dashboard \<Rightarrow> viewer_props" where
  "render_viewer st =
     \<lparr>structureUrl = map_option trajectoryPath (results st),
      viewer_frame = currentFrame st\<rparr>"

definition render_plot :: "dashboard \<Rightarrow> plot_props" where
  "render_plot st =
     \<lparr>plot_data = (case results st of None \<Rightarrow> [] | Some r \<Rightarrow> pcaData r),
      plot_frame = currentFrame st\<rparr>"

definition visualization_tab :: "dashboard \<Rightarrow> (viewer_props \<times> plot_props) option" where
  "visualization_tab st =
     (if selectedJob st \<noteq> None \<and> activeTab st = ''visualization''
      then Some (render_viewer st, render_plot st) else None)"

definition results_tab :: "dashboard \<Rightarrow> (nat \<times> (string \<times> real) list) option option" where
  "results_tab st =
     (if selectedJob st \<noteq> None \<and> activeTab st = ''results''
      then Some (map_option (\<lambda>r. (length (molecules r), metrics r)) (results st))
      else None)"

subsection \<open>PCAPlot\<close>

text \<open>
  Each trace carries \<^verbatim>\<open>customdata: points.map(p => p.frame)\<close>, and the plotting library
  reports a click as \<^verbatim>\<open>event.points\<close>, the first of which holds the \<^verbatim>\<open>customdata\<close> of
  the clicked marker (\<open>None\<close> when that is not a number). \<^verbatim>\<open>handlePointClick\<close> calls the
  \<^verbatim>\<open>onPointClick\<close> prop, if any, with it. In both colourings a marker has size 12
  when \<^verbatim>\<open>p.frame === currentFrame\<close> and 6 otherwise.
\<close>

record plot_point =
  customdata :: "int option"

definition clicked_point :: "pca_point \<Rightarrow> plot_point list" where
  "clicked_point p = [\<lparr>customdata = Some (frame p)\<rparr>]"

definition handlePointClick ::
  "(int \<Rightarrow> 's \<Rightarrow> 's) option \<Rightarrow> plot_point list \<Rightarrow> 's \<Rightarrow> 's" where
  "handlePointClick onPointClick points st =
     (case points of
        [] \<Rightarrow> st
      | point # _ \<Rightarrow>
          (case customdata point of
             None \<Rightarrow> st
           | Some frame_arg \<Rightarrow>
               (case onPointClick of None \<Rightarrow> st | Some callback \<Rightarrow> callback frame_arg st)))"

definition marker_size :: "int \<Rightarrow> pca_point \<Rightarrow> nat" where
  "marker_size currentFrame_prop p = (if frame p = currentFrame_prop then 12 else 6)"

subsection \<open>MolstarPlayer\<close>

text \<open>
  The viewer's own state: whether \<^verbatim>\<open>pluginRef.current\<close> is set, \<^verbatim>\<open>frameInfo\<close>
  (initially \<^verbatim>\<open>{current: 0, total: 0, time_ns: 0}\<close>; \<^verbatim>\<open>loadStructure\<close> sets
  \<^verbatim>\<open>total\<close>), \<^verbatim>\<open>isPlaying\<close>, and the frames it has passed to \<^verbatim>\<open>onFrameChange\<close>,
  oldest first.
\<close>

record frame_info =
  current :: int
  total :: int
  time_ns :: real

record molstar_player =
  plugin_ready :: bool
  frameInfo :: frame_info
  isPlaying :: bool
  frame_changes :: "int list"

text \<open>
  What the plugin does when \<^verbatim>\<open>goToFrame\<close> reaches it: the hierarchy has no trajectory,
  \<^verbatim>\<open>setFrame\<close> succeeds, or a call throws (caught and logged).
\<close>

datatype plugin_outcome = No_trajectory | Frame_set | Plugin_throws

text \<open>
  \<^verbatim>\<open>if (!pluginRef.current || frameNumber < 0 || frameNumber >= frameInfo.total) return;\<close>
  then, when a trajectory exists and \<^verbatim>\<open>setFrame\<close> succeeds, \<^verbatim>\<open>current\<close> and
  \<^verbatim>\<open>time_ns\<close> (0.1 ns per frame) are updated and \<^verbatim>\<open>onFrameChange\<close> is called.
\<close>

definition goToFrame :: "plugin_outcome \<Rightarrow> int \<Rightarrow> molstar_player \<Rightarrow> molstar_player" where
  "goToFrame outcome frameNumber v =
     (if \<not> plugin_ready v \<or> frameNumber < 0 \<or> frameNumber \<ge> total (frameInfo v) then v
      else case outcome of
        Frame_set \<Rightarrow>
          v\<lparr>frameInfo := (frameInfo v)\<lparr>current := frameNumber,
                                        time_ns := real_of_int frameNumber * 0.1\<rparr>,
            frame_changes := frame_changes v @ [frameNumber]\<rparr>
      | _ \<Rightarrow> v)"

text \<open>
  The effect on the \<^verbatim>\<open>currentFrame\<close> prop:
  \<^verbatim>\<open>if (currentFrame !== frameInfo.current && !isPlaying) goToFrame(currentFrame)\<close>.
\<close>

definition frame_prop_effect ::
  "plugin_outcome \<Rightarrow> int \<Rightarrow> molstar_player \<Rightarrow> molstar_player" where
  "frame_prop_effect outcome currentFrame_prop v =
     (if currentFrame_prop \<noteq> current (frameInfo v) \<and> \<not> isPlaying v
      then goToFrame outcome currentFrame_prop v else v)"

text \<open>The clamp of \<open>n\<close> into \<open>[0, total - 1]\<close>, for comparison with \<open>goToFrame\<close>.\<close>

definition clamp_frame :: "int \<Rightarrow> int \<Rightarrow> int" where
  "clamp_frame total_frames n = max 0 (min (total_frames - 1) n)"

section \<open>Events of the dashboard and the polling effect\<close>

text \<open>
  What can happen to a mounted dashboard. \<^verbatim>\<open>loadJobs\<close> is called (by the timer, or by
  the effect that calls it on mount and whenever it is created anew, that is whenever
  \<^verbatim>\<open>selectedJob\<close> is set to another object) and its request leaves; the
  response of such a call arrives, for a callback that had captured the selection
  \<open>sel\<close>; the response of a results request, of a submission or of a cancel request
  arrives; the user clicks a job card, the submit or the cancel button, a marker of the
  plot, a tab, opens or closes the form or types in it; the viewer reports a frame.
  Responses may arrive in any order and at any time.
\<close>

datatype event =
    Jobs_call
  | Jobs_arrive "job option" "job list response"
  | Results_arrive string "simulation_results response"
  | Job_click job
  | Submit_click
  | Submit_arrive "job response"
  | Cancel_click
  | Cancel_arrive "unit response"
  | Plot_click "plot_point list"
  | Viewer_frame int
  | Tab_click string
  | Form_open
  | Form_close
  | Form_name string
  | Form_type string
  | Form_molecule string
  | Form_protein string

text \<open>
  What is on screen decides which clicks exist: a card for each job of the list; the form
  and its submit button while \<^verbatim>\<open>showNewPipeline\<close>; the cancel button while the selected
  job has status \<^verbatim>\<open>'running'\<close>, cancelling that job; the tabs while a job is selected;
  the plot while the visualization tab is shown and has data.
\<close>

fun handle :: "event \<Rightarrow> dashboard \<Rightarrow> dashboard" where
  "handle Jobs_call st = loadJobs_fetch st"
| "handle (Jobs_arrive sel resp) st = loadJobs_done sel resp st"
| "handle (Results_arrive jobId resp) st = loadResults_done jobId resp st"
| "handle (Job_click j) st = (if j \<in> set (jobs st) then select_job j st else st)"
| "handle Submit_click st = (if showNewPipeline st then submit_click st else st)"
| "handle (Submit_arrive resp) st = startPipeline_done resp st"
| "handle Cancel_click st =
     (case selectedJob st of
        None \<Rightarrow> st
      | Some s \<Rightarrow> if status s = ''running'' then cancelJob_fetch (job_id s) st else st)"
| "handle (Cancel_arrive resp) st = cancelJob_done resp st"
| "handle (Plot_click points) st =
     (if visualization_tab st \<noteq> None \<and> plot_data (render_plot st) \<noteq> []
      then handlePointClick (Some handlePCAPointClick) points st else st)"
| "handle (Viewer_frame n) st = st\<lparr>currentFrame := n\<rparr>"
| "handle (Tab_click tab) st = (if selectedJob st \<noteq> None then st\<lparr>activeTab := tab\<rparr> else st)"
| "handle Form_open st = st\<lparr>showNewPipeline := True\<rparr>"
| "handle Form_close st = st\<lparr>showNewPipeline := False\<rparr>"
| "handle (Form_name v) st = st\<lparr>pipelineConfig := (pipelineConfig st)\<lparr>cfg_name := v\<rparr>\<rparr>"
| "handle (Form_type v) st = st\<lparr>pipelineConfig := (pipelineConfig st)\<lparr>cfg_type := v\<rparr>\<rparr>"
| "handle (Form_molecule v) st =
     st\<lparr>pipelineConfig := (pipelineConfig st)\<lparr>target_molecule := v\<rparr>\<rparr>"
| "handle (Form_protein v) st =
     st\<lparr>pipelineConfig := (pipelineConfig st)\<lparr>target_protein := v\<rparr>\<rparr>"

text \<open>
  The polling effect, with dependencies \<^verbatim>\<open>[isPolling, jobs, loadJobs]\<close> (\<^verbatim>\<open>loadJobs\<close>
  changes with \<^verbatim>\<open>selectedJob\<close>): when one of them has changed, the cleanup clears the
  timer, and the body sets a new one of 2000 ms if
  \<^verbatim>\<open>isPolling || jobs.some(job => ['pending', 'running'].includes(job.status))\<close>.
  When none has changed the timer is left as it is. (React compares the dependencies by
  identity, the model by value; where React runs the effect again on an equal value, the
  body decides on the same \<^verbatim>\<open>isPolling\<close> and \<^verbatim>\<open>jobs\<close> as before.)
\<close>

definition polling_wanted :: "dashboard \<Rightarrow> bool" where
  "polling_wanted st =
     (isPolling st \<or> list_ex (\<lambda>j. status j \<in> set [''pending'', ''running'']) (jobs st))"

definition polling_effect :: "dashboard \<Rightarrow> dashboard \<Rightarrow> dashboard" where
  "polling_effect prev st =
     (if isPolling st = isPolling prev \<and> jobs st = jobs prev
         \<and> selectedJob st = selectedJob prev
      then st
      else st\<lparr>interval := (if polling_wanted st then Some 2000 else None)\<rparr>)"

definition step :: "dashboard \<Rightarrow> event \<Rightarrow> dashboard" where
  "step st e = polling_effect st (handle e st)"

definition run :: "event list \<Rightarrow> dashboard" where
  "run es = foldl step dashboard_init es"

text \<open>The timer is set exactly when the test of the effect's body holds.\<close>

definition timer_as_wanted :: "dashboard \<Rightarrow> bool" where
  "timer_as_wanted st = ((interval st \<noteq> None) = polling_wanted st)"

text \<open>
  The second effect, under the comment \<^verbatim>\<open>Cargar trabajos al montar\<close>:
  \<^verbatim>\<open>useEffect(() => { loadJobs(); }, [loadJobs])\<close>. It calls \<^verbatim>\<open>loadJobs\<close> on mount and
  again whenever \<^verbatim>\<open>loadJobs\<close> is created anew, which \<^verbatim>\<open>useCallback(..., [selectedJob])\<close>
  does whenever \<^verbatim>\<open>setSelectedJob\<close> is given another object than the selected one. The
  entry that \<^verbatim>\<open>loadJobs\<close> finds in a response it has just parsed is a new object, and so
  is the job a submission returns; the job of a card is an object of the list, another one
  than the selected job at least when it differs from it.
\<close>

fun recreates_loadJobs :: "event \<Rightarrow> dashboard \<Rightarrow> bool" where
  "recreates_loadJobs (Jobs_arrive sel (Success jobsData)) st =
     (case sel of
        None \<Rightarrow> False
      | Some s \<Rightarrow> find (\<lambda>j. job_id j = job_id s) jobsData \<noteq> None)"
| "recreates_loadJobs (Submit_arrive (Success newJob)) st = True"
| "recreates_loadJobs (Job_click j) st = (j \<in> set (jobs st) \<and> selectedJob st \<noteq> Some j)"
| "recreates_loadJobs _ st = False"

text \<open>
  One event with all that follows from it before the next: the handler and the polling
  effect (\<open>step\<close>), then, if \<^verbatim>\<open>loadJobs\<close> was created anew, the call of \<^verbatim>\<open>loadJobs\<close> by
  the second effect, which is the event \<open>Jobs_call\<close>.
\<close>

definition cycle :: "dashboard \<Rightarrow> event \<Rightarrow> dashboard" where
  "cycle st e = (if recreates_loadJobs e st then step (step st e) Jobs_call else step st e)"

section \<open>Sample data\<close>

text \<open>
  The scenario of the specification: job \<open>a\<close>, first running at 40 percent, then
  completed with results; a second job \<open>b\<close>; a projection of two frames.
\<close>

definition job_a_running :: job where
  "job_a_running =
     \<lparr>job_id = ''a'', status = ''running'', job_name = ''kinase run'',
      job_type = ''md_simulation'', progress = 40, startTime = ''2024-05-01T10:00:00Z'',
      currentStep = 3, job_results = None\<rparr>"

definition job_a_completed :: job where
  "job_a_completed =
     job_a_running\<lparr>status := ''completed'', progress := 100,
                   job_results := Some (Results_ref 1)\<rparr>"

definition job_b :: job where
  "job_b =
     \<lparr>job_id = ''b'', status = ''pending'', job_name = ''docking run'',
      job_type = ''docking'', progress = 0, startTime = ''2024-05-01T11:00:00Z'',
      currentStep = 0, job_results = None\<rparr>"

definition pca_zero :: pca_point where
  "pca_zero = \<lparr>frame = 0, pc1 = 0.1, pc2 = 0.2, pc3 = 0, pca_time_ns = 0, cluster = None\<rparr>"

definition pca_one :: pca_point where
  "pca_one = \<lparr>frame = 1, pc1 = 0.3, pc2 = 0.1, pc3 = 0, pca_time_ns = 0.1, cluster = None\<rparr>"

definition pca_two :: "pca_point list" where
  "pca_two = [pca_zero, pca_one]"

definition results_a :: simulation_results where
  "results_a =
     \<lparr>molecules = [''CCO''], pcaData = pca_two, trajectoryPath = ''/traj/a.pdb'',
      metrics = [(''rmsd'', 1.5)]\<rparr>"

definition results_b :: simulation_results where
  "results_b =
     \<lparr>molecules = [], pcaData = [], trajectoryPath = ''/traj/b.pdb'', metrics = []\<rparr>"

text \<open>Job \<open>a\<close> listed, running and selected; nothing sent yet.\<close>

definition watching_a :: dashboard where
  "watching_a = dashboard_init\<lparr>jobs := [job_a_running], selectedJob := Some job_a_running\<rparr>"

text \<open>Job \<open>b\<close> selected with its results on the visualization tab, the cursor at 5.\<close>

definition viewing_b :: dashboard where
  "viewing_b =
     dashboard_init\<lparr>jobs := [job_b, job_a_completed], selectedJob := Some job_b,
                    results := Some results_b, activeTab := ''visualization'',
                    currentFrame := 5\<rparr>"

text \<open>Job \<open>a\<close> completed and selected, its results on the visualization tab.\<close>

definition viewing_a :: dashboard where
  "viewing_a =
     dashboard_init\<lparr>jobs := [job_b, job_a_completed], selectedJob := Some job_a_completed,
                    results := Some results_a, activeTab := ''visualization''\<rparr>"

text \<open>
  Job \<open>a\<close> listed as completed and selected, no job pending or running, \<^verbatim>\<open>isPolling\<close>
  false, no timer.
\<close>

definition idle_a :: dashboard where
  "idle_a = dashboard_init\<lparr>jobs := [job_a_completed], selectedJob := Some job_a_completed\<rparr>"

text \<open>The form open, nothing typed.\<close>

definition form_open_empty :: dashboard where
  "form_open_empty = dashboard_init\<lparr>showNewPipeline := True\<rparr>"

text \<open>A viewer with a trajectory of five frames loaded, showing frame 2.\<close>

definition viewer_five :: molstar_player where
  "viewer_five =
     \<lparr>plugin_ready = True, frameInfo = \<lparr>current = 2, total = 5, time_ns = 0.2\<rparr>,
      isPlaying = False, frame_changes = []\<rparr>"

section \<open>Properties of the poller\<close>

lemma loadJobs_done_failure:
  "resp \<in> {Network_error, Http_error, Body_error} \<Longrightarrow> loadJobs_done sel resp st = st"
  by (auto simp: loadJobs_done_def)

text \<open>
  Claim C7. A failed job-list fetch (the request could not be completed, the response is
  not ok, or its body does not parse) changes nothing: the continuation returns the state
  it was given, so the job list, the selected job and the result set are the previous
  ones, whichever selection the callback had captured. The whole call only adds its own
  request to the log.
\<close>

theorem loadJobs_failure_retains_state:
  assumes "resp = Network_error \<or> resp = Http_error \<or> resp = Body_error"
  shows "loadJobs_done sel resp st = st
    \<and> jobs (loadJobs resp st) = jobs st
    \<and> selectedJob (loadJobs resp st) = selectedJob st
    \<and> results (loadJobs resp st) = results st
    \<and> loadJobs resp st = st\<lparr>http_log := http_log st @ [Get_jobs]\<rparr>"
proof -
  from assms have fail: "resp \<in> {Network_error, Http_error, Body_error}"
    by auto
  have whole: "loadJobs resp st = loadJobs_fetch st"
    unfolding loadJobs_def by (rule loadJobs_done_failure [OF fail])
  show ?thesis
    using loadJobs_done_failure [OF fail, of sel st] whole
    by (simp add: loadJobs_fetch_def)
qed

theorem loadJobs_failure_retains_state_witness:
  "jobs (loadJobs Http_error viewing_a) = [job_b, job_a_completed]
   \<and> selectedJob (loadJobs Http_error viewing_a) = Some job_a_completed
   \<and> results (loadJobs Http_error viewing_a) = Some results_a
   \<and> loadJobs_done (Some job_a_completed) Http_error viewing_a = viewing_a"
proof -
  have before: "jobs viewing_a = [job_b, job_a_completed]"
    "selectedJob viewing_a = Some job_a_completed" "results viewing_a = Some results_a"
    by (simp_all add: viewing_a_def)
  show ?thesis
    using loadJobs_failure_retains_state [of Http_error "Some job_a_completed" viewing_a] before
    by simp
qed

lemma find_job_id: "find (\<lambda>j. job_id j = k) xs = Some u \<Longrightarrow> job_id u = k"
  by (auto simp: find_Some_iff)




lemma loadJobs_keeps_selected_id:
  assumes "selectedJob st = Some s"
  shows "\<exists>s'. selectedJob (loadJobs (Success jobsData) st) = Some s' \<and> job_id s' = job_id s"
  using assms
  by (auto simp: loadJobs_def loadJobs_done_def loadJobs_fetch_def loadResults_fetch_def Let_def
      split: option.splits dest: find_job_id)

lemma loadJobs_results_fetches:
  assumes "selectedJob st = Some s"
  shows "results_fetches (job_id s) (loadJobs (Success jobsData) st) =
     results_fetches (job_id s) st + (if completed_entry (job_id s) jobsData then 1 else 0)"
  using assms
  by (auto simp: loadJobs_def loadJobs_done_def loadJobs_fetch_def loadResults_fetch_def Let_def
        results_fetches_def completed_entry_def
      split: option.splits dest: find_job_id)

text \<open>
  Claim C1, as the code has it. While a job is selected, every ok poll whose list holds
  the job as completed with results sends one results request for it, and no other poll
  sends any: after a run of polls the number of results requests has grown by the number
  of such polls, whether or not the job was already completed on the poll before.
\<close>

theorem results_fetched_on_every_completed_poll:
  assumes "selectedJob st = Some s"
  shows "results_fetches (job_id s) (polls ls st) =
     results_fetches (job_id s) st + length (filter (completed_entry (job_id s)) ls)"
  using assms
proof (induction ls arbitrary: st s)
  case Nil
  then show ?case by simp
next
  case (Cons jobsData rest)
  from loadJobs_keeps_selected_id [OF Cons.prems, of jobsData]
  obtain s' where s': "selectedJob (loadJobs (Success jobsData) st) = Some s'"
    "job_id s' = job_id s"
    by blast
  from Cons.IH [OF s'(1)] s'(2) loadJobs_results_fetches [OF Cons.prems, of jobsData]
  show ?case by simp
qed

theorem results_fetched_on_every_completed_poll_witness:
  "selectedJob watching_a = Some job_a_running
   \<and> results_fetches ''a''
        (polls [[job_a_completed], [job_a_completed], [job_a_completed]] watching_a) = 3"
proof -
  have sel: "selectedJob watching_a = Some job_a_running"
    by (simp add: watching_a_def)
  have compl: "completed_entry ''a'' [job_a_completed]"
    by (simp add: completed_entry_def job_a_completed_def job_a_running_def)
  have none: "results_fetches ''a'' watching_a = 0"
    by (simp add: results_fetches_def watching_a_def dashboard_init_def)
  have a: "job_id job_a_running = ''a''"
    by (simp add: job_a_running_def)
  show ?thesis
    using results_fetched_on_every_completed_poll [OF sel,
        of "[[job_a_completed], [job_a_completed], [job_a_completed]]"] sel compl none a
    by simp
qed

text \<open>
  Claim C1, as stated, fails: job \<open>a\<close> is selected and running; the first poll reports it
  completed with results and one results request is sent; the second poll reports the
  same, the status has remained completed, and a second results request is sent.
\<close>

theorem results_refetched_counterexample:
  "status job_a_running = ''running''
   \<and> selectedJob watching_a = Some job_a_running
   \<and> selectedJob (polls [[job_a_completed]] watching_a) = Some job_a_completed
   \<and> status job_a_completed = ''completed''
   \<and> job_results job_a_completed = Some (Results_ref 1)
   \<and> results_fetches ''a'' (polls [[job_a_completed]] watching_a) = 1
   \<and> results_fetches ''a''
        (loadJobs (Success [job_a_completed]) (polls [[job_a_completed]] watching_a)) = 2"
  by (simp add: loadJobs_def loadJobs_done_def loadJobs_fetch_def loadResults_fetch_def
      results_fetches_def watching_a_def dashboard_init_def job_a_completed_def
      job_a_running_def)

text \<open>
  Claim C4, as the code has it. The continuation of a results fetch stores what an ok
  response carries, whatever job it was requested for and whatever job is selected by
  then; a failed fetch stores nothing.
\<close>

theorem loadResults_applies_any_response:
  "loadResults_done jobId (Success r) st = st\<lparr>results := Some r\<rparr>
   \<and> loadResults_done jobId Network_error st = st
   \<and> loadResults_done jobId Http_error st = st
   \<and> loadResults_done jobId Body_error st = st"
  by (simp add: loadResults_done_def)

theorem loadResults_applies_any_response_witness:
  "results (loadResults_done ''a'' (Success results_a) viewing_b) = Some results_a"
  using loadResults_applies_any_response [of "''a''" results_a viewing_b]
  by simp

text \<open>
  Claim C4, as stated, fails: job \<open>b\<close> is selected and its results are shown; the
  response of a results request for job \<open>a\<close> arrives and replaces them.
\<close>

theorem stale_results_applied_counterexample:
  "map_option job_id (selectedJob viewing_b) = Some ''b''
   \<and> results viewing_b = Some results_b
   \<and> results (loadResults_done ''a'' (Success results_a) viewing_b) = Some results_a
   \<and> results (handle (Results_arrive ''a'' (Success results_a)) viewing_b) = Some results_a
   \<and> results_a \<noteq> results_b"
  by (simp add: loadResults_done_def viewing_b_def dashboard_init_def job_b_def
      results_a_def results_b_def)

section \<open>Properties of the launch form\<close>

lemma posts_valid_append:
  "posts_valid (xs @ ys) = (posts_valid xs \<and> posts_valid ys)"
  by (simp add: posts_valid_def)

lemma posts_valid_loadJobs_done:
  "posts_valid (http_log st) \<Longrightarrow> posts_valid (http_log (loadJobs_done sel resp st))"
  by (cases resp)
    (simp_all add: loadJobs_done_def loadResults_fetch_def Let_def posts_valid_append
      posts_valid_def split: option.splits)

lemma posts_valid_handle:
  assumes "posts_valid (http_log st)"
  shows "posts_valid (http_log (handle e st))"
proof (cases e)
  case Jobs_call
  with assms show ?thesis
    by (simp add: loadJobs_fetch_def posts_valid_append posts_valid_def)
next
  case (Jobs_arrive sel resp)
  with assms show ?thesis by (simp add: posts_valid_loadJobs_done)
next
  case (Results_arrive jobId resp)
  with assms show ?thesis by (cases resp) (simp_all add: loadResults_done_def)
next
  case Submit_click
  with assms show ?thesis
    by (simp add: submit_click_def startPipeline_fetch_def posts_valid_append posts_valid_def)
next
  case (Submit_arrive resp)
  with assms show ?thesis by (cases resp) (simp_all add: startPipeline_done_def)
next
  case Cancel_click
  with assms show ?thesis
    by (simp add: cancelJob_fetch_def posts_valid_append posts_valid_def split: option.splits)
next
  case (Cancel_arrive resp)
  with assms show ?thesis
    by (cases resp)
      (simp_all add: cancelJob_done_def loadJobs_fetch_def posts_valid_append posts_valid_def)
next
  case (Plot_click points)
  with assms show ?thesis
    by (simp add: handlePointClick_def handlePCAPointClick_def split: list.splits option.splits)
qed (use assms in \<open>simp_all add: select_job_def\<close>)

lemma posts_valid_step:
  "posts_valid (http_log st) \<Longrightarrow> posts_valid (http_log (step st e))"
  by (simp add: step_def polling_effect_def posts_valid_handle)

lemma posts_valid_foldl:
  "posts_valid (http_log st) \<Longrightarrow> posts_valid (http_log (foldl step st es))"
  by (induction es arbitrary: st) (simp_all add: posts_valid_step)

lemma posts_valid_run: "posts_valid (http_log (run es))"
  unfolding run_def
  by (rule posts_valid_foldl) (simp add: posts_valid_def dashboard_init_def)

text \<open>
  Claim C3, as the code has it. With an empty name or an empty target molecule the submit
  button is disabled: a click on it does not fail, with a validation error or any other;
  it is ignored and leaves the whole state as it was, so no request is sent and no job is
  added. And in no run of the dashboard is a configuration with an empty name or an empty
  target molecule ever posted.
\<close>

theorem disabled_submit_sends_nothing:
  assumes "cfg_name (pipelineConfig st) = [] \<or> target_molecule (pipelineConfig st) = []"
  shows "submit_button st = Inr st
    \<and> submit_click st = st
    \<and> step st Submit_click = st
    \<and> http_log (step st Submit_click) = http_log st
    \<and> jobs (step st Submit_click) = jobs st
    \<and> (Post_start_pipeline cfg \<in> set (http_log (run es)) \<longrightarrow>
         cfg_name cfg \<noteq> [] \<and> target_molecule cfg \<noteq> [])"
proof -
  from assms have click: "submit_button st = Inr st" "submit_click st = st"
    "step st Submit_click = st"
    by (simp_all add: submit_button_def submit_click_def submit_disabled_def step_def
        polling_effect_def)
  have "Post_start_pipeline cfg \<in> set (http_log (run es)) \<longrightarrow> \<not> submit_disabled cfg"
    using posts_valid_run [of es] by (auto simp: posts_valid_def list_all_iff)
  then have posted: "Post_start_pipeline cfg \<in> set (http_log (run es)) \<longrightarrow>
      cfg_name cfg \<noteq> [] \<and> target_molecule cfg \<noteq> []"
    by (simp add: submit_disabled_def)
  from click posted show ?thesis by simp
qed

theorem disabled_submit_sends_nothing_witness:
  "cfg_name (pipelineConfig form_open_empty) = []
   \<and> showNewPipeline form_open_empty
   \<and> submit_button form_open_empty = Inr form_open_empty
   \<and> step form_open_empty Submit_click = form_open_empty
   \<and> http_log (step form_open_empty Submit_click) = []
   \<and> jobs (step form_open_empty Submit_click) = []"
proof -
  have empty: "cfg_name (pipelineConfig form_open_empty) = []"
    by (simp add: form_open_empty_def dashboard_init_def empty_config_def)
  have start: "http_log form_open_empty = []" "jobs form_open_empty = []"
    "showNewPipeline form_open_empty"
    by (simp_all add: form_open_empty_def dashboard_init_def)
  show ?thesis
    using disabled_submit_sends_nothing [of form_open_empty] empty start
    by simp
qed

text \<open>
  Claim C3, as stated, fails: the form is open with an empty name and an empty target
  molecule, and the submission does not fail with a validation error. The click returns
  normally with the state it found, the form still open.
\<close>

theorem disabled_submit_no_error_counterexample:
  "cfg_name (pipelineConfig form_open_empty) = []
   \<and> target_molecule (pipelineConfig form_open_empty) = []
   \<and> showNewPipeline form_open_empty
   \<and> submit_button form_open_empty \<noteq> Inl ValidationError
   \<and> submit_button form_open_empty = Inr form_open_empty
   \<and> handle Submit_click form_open_empty = form_open_empty"
  by (simp add: submit_button_def submit_click_def submit_disabled_def form_open_empty_def
      dashboard_init_def empty_config_def)

section \<open>Properties of the viewer\<close>

text \<open>
  Claim C2, as the code has it. A frame number outside \<open>[0, total - 1]\<close> stops at the
  guard of \<^verbatim>\<open>goToFrame\<close>: nothing is thrown and nothing changes, neither the cursor nor
  the time, and \<^verbatim>\<open>onFrameChange\<close> is not called. After any call the cursor is the
  previous one or the requested frame, the latter only when it is within range; so a
  cursor within range stays within range.
\<close>

theorem goToFrame_out_of_range_ignored:
  "(n < 0 \<or> total (frameInfo v) \<le> n \<longrightarrow> goToFrame outcome n v = v)
   \<and> (0 \<le> current (frameInfo v) \<and> current (frameInfo v) < total (frameInfo v) \<longrightarrow>
        0 \<le> current (frameInfo (goToFrame outcome n v))
        \<and> current (frameInfo (goToFrame outcome n v)) < total (frameInfo (goToFrame outcome n v)))
   \<and> (current (frameInfo (goToFrame outcome n v)) = current (frameInfo v)
        \<or> current (frameInfo (goToFrame outcome n v)) = n \<and> 0 \<le> n \<and> n < total (frameInfo v))"
  by (cases outcome) (auto simp: goToFrame_def)

theorem goToFrame_out_of_range_ignored_witness:
  "total (frameInfo viewer_five) \<le> 7
   \<and> 0 \<le> current (frameInfo viewer_five)
   \<and> current (frameInfo viewer_five) < total (frameInfo viewer_five)
   \<and> goToFrame Frame_set 7 viewer_five = viewer_five
   \<and> current (frameInfo (goToFrame Frame_set 7 viewer_five)) = 2"
  using goToFrame_out_of_range_ignored [of 7 viewer_five Frame_set]
  by (simp add: viewer_five_def)

text \<open>
  Claim C2, as stated, fails: with five frames and the cursor at 2, \<^verbatim>\<open>goToFrame(7)\<close>
  leaves the cursor at 2 where the clamp is 4, and \<^verbatim>\<open>goToFrame(-3)\<close> leaves it at 2
  where the clamp is 0.
\<close>

theorem goToFrame_clamp_counterexample:
  "total (frameInfo viewer_five) = 5
   \<and> current (frameInfo (goToFrame Frame_set 7 viewer_five)) = 2
   \<and> clamp_frame 5 7 = 4
   \<and> current (frameInfo (goToFrame Frame_set (- 3) viewer_five)) = 2
   \<and> clamp_frame 5 (- 3) = 0"
  by (simp add: goToFrame_def clamp_frame_def viewer_five_def)

section \<open>Properties of the polling effect\<close>

lemma loadJobs_done_frame:
  "interval (loadJobs_done sel resp st) = interval st
   \<and> currentFrame (loadJobs_done sel resp st) = currentFrame st
   \<and> results (loadJobs_done sel resp st) = results st"
  by (cases resp)
    (simp_all add: loadJobs_done_def loadResults_fetch_def Let_def split: option.splits)

lemma loadResults_done_frame:
  "interval (loadResults_done jobId resp st) = interval st
   \<and> currentFrame (loadResults_done jobId resp st) = currentFrame st"
  by (cases resp) (simp_all add: loadResults_done_def)

lemma startPipeline_done_frame:
  "interval (startPipeline_done resp st) = interval st
   \<and> currentFrame (startPipeline_done resp st) = currentFrame st
   \<and> results (startPipeline_done resp st) = results st"
  by (cases resp) (simp_all add: startPipeline_done_def)

lemma submit_click_frame:
  "interval (submit_click st) = interval st
   \<and> currentFrame (submit_click st) = currentFrame st
   \<and> results (submit_click st) = results st"
  by (simp add: submit_click_def startPipeline_fetch_def)

lemma cancelJob_done_frame:
  "interval (cancelJob_done resp st) = interval st
   \<and> currentFrame (cancelJob_done resp st) = currentFrame st
   \<and> results (cancelJob_done resp st) = results st"
  by (cases resp) (simp_all add: cancelJob_done_def loadJobs_fetch_def)

lemma handlePointClick_frame:
  "interval (handlePointClick (Some handlePCAPointClick) points st) = interval st
   \<and> results (handlePointClick (Some handlePCAPointClick) points st) = results st"
  by (simp add: handlePointClick_def handlePCAPointClick_def split: list.splits option.splits)

lemma interval_handle: "interval (handle e st) = interval st"
proof (cases e)
  case (Jobs_arrive sel resp)
  then show ?thesis by (simp add: loadJobs_done_frame)
next
  case (Results_arrive jobId resp)
  then show ?thesis by (simp add: loadResults_done_frame)
next
  case Submit_click
  then show ?thesis by (simp add: submit_click_frame)
next
  case (Submit_arrive resp)
  then show ?thesis by (simp add: startPipeline_done_frame)
next
  case Cancel_click
  then show ?thesis by (simp add: cancelJob_fetch_def split: option.splits)
next
  case (Cancel_arrive resp)
  then show ?thesis by (simp add: cancelJob_done_frame)
next
  case (Plot_click points)
  then show ?thesis by (simp add: handlePointClick_frame)
qed (simp_all add: select_job_def loadJobs_fetch_def)

lemma timer_as_wanted_init: "timer_as_wanted dashboard_init"
  by (simp add: timer_as_wanted_def polling_wanted_def dashboard_init_def)

lemma timer_as_wanted_step:
  assumes "timer_as_wanted st"
  shows "timer_as_wanted (step st e)"
proof (cases "isPolling (handle e st) = isPolling st \<and> jobs (handle e st) = jobs st
    \<and> selectedJob (handle e st) = selectedJob st")
  case True
  then have "step st e = handle e st"
    by (simp add: step_def polling_effect_def)
  moreover from True have "polling_wanted (handle e st) = polling_wanted st"
    by (simp add: polling_wanted_def)
  ultimately show ?thesis
    using assms by (simp add: timer_as_wanted_def interval_handle)
next
  case False
  then have "step st e =
      (handle e st)\<lparr>interval := (if polling_wanted (handle e st) then Some 2000 else None)\<rparr>"
    by (auto simp: step_def polling_effect_def)
  then show ?thesis
    by (simp add: timer_as_wanted_def polling_wanted_def)
qed

lemma timer_as_wanted_foldl: "timer_as_wanted st \<Longrightarrow> timer_as_wanted (foldl step st es)"
  by (induction es arbitrary: st) (simp_all add: timer_as_wanted_step)

text \<open>
  The timer alone is as the polling effect means it: after any sequence of events on a
  freshly mounted dashboard it is set if and only if \<^verbatim>\<open>isPolling\<close> is true or some job
  of the current list is pending or running.
\<close>

lemma timer_set_iff_wanted:
  "(interval (run es) \<noteq> None) =
     (isPolling (run es)
      \<or> (\<exists>j \<in> set (jobs (run es)). status j = ''pending'' \<or> status j = ''running''))"
proof -
  have "timer_as_wanted (run es)"
    unfolding run_def by (rule timer_as_wanted_foldl [OF timer_as_wanted_init])
  then show ?thesis
    by (auto simp: timer_as_wanted_def polling_wanted_def list_ex_iff)
qed

lemma step_Jobs_call: "step st Jobs_call = st\<lparr>http_log := http_log st @ [Get_jobs]\<rparr>"
  by (simp add: step_def polling_effect_def loadJobs_fetch_def)

lemma step_Jobs_arrive_found:
  assumes "find (\<lambda>j. job_id j = job_id s) jobsData = Some updated"
  shows "jobs (step st (Jobs_arrive (Some s) (Success jobsData))) = jobsData
    \<and> isPolling (step st (Jobs_arrive (Some s) (Success jobsData))) = isPolling st
    \<and> count_list (http_log (step st (Jobs_arrive (Some s) (Success jobsData)))) Get_jobs
        = count_list (http_log st) Get_jobs"
  using assms
  by (simp add: step_def polling_effect_def loadJobs_done_def loadResults_fetch_def Let_def)

text \<open>
  Claim C5 does not hold of the code. The timer is set exactly when the claim says, but
  the timer is not all that polls: every ok job-list response that finds the job its
  callback had captured hands \<^verbatim>\<open>setSelectedJob\<close> a new object, \<^verbatim>\<open>loadJobs\<close> is created
  anew, and the effect meant to load the jobs on mount calls it again. So after such a
  response a further job-list request leaves at once, whether or not any job of the new
  list is pending or running and whether or not \<^verbatim>\<open>isPolling\<close> is set, and its response
  does the same.
\<close>

theorem loadJobs_recalled_after_response:
  assumes "timer_as_wanted st"
    and "find (\<lambda>j. job_id j = job_id s) jobsData = Some updated"
  shows "(interval (cycle st (Jobs_arrive (Some s) (Success jobsData))) \<noteq> None)
       = polling_wanted (cycle st (Jobs_arrive (Some s) (Success jobsData)))
    \<and> jobs (cycle st (Jobs_arrive (Some s) (Success jobsData))) = jobsData
    \<and> isPolling (cycle st (Jobs_arrive (Some s) (Success jobsData))) = isPolling st
    \<and> http_log (cycle st (Jobs_arrive (Some s) (Success jobsData)))
        = http_log (step st (Jobs_arrive (Some s) (Success jobsData))) @ [Get_jobs]
    \<and> count_list (http_log (cycle st (Jobs_arrive (Some s) (Success jobsData)))) Get_jobs
        = Suc (count_list (http_log st) Get_jobs)"
proof -
  let ?e = "Jobs_arrive (Some s) (Success jobsData)"
  from assms(2) have again: "cycle st ?e = (step st ?e)\<lparr>http_log := http_log (step st ?e) @ [Get_jobs]\<rparr>"
    by (simp add: cycle_def step_Jobs_call)
  have "timer_as_wanted (step st ?e)"
    by (rule timer_as_wanted_step [OF assms(1)])
  then have timer: "(interval (cycle st ?e) \<noteq> None) = polling_wanted (cycle st ?e)"
    unfolding again by (simp add: timer_as_wanted_def polling_wanted_def)
  from step_Jobs_arrive_found [OF assms(2), of st] timer show ?thesis
    unfolding again by simp
qed

theorem loadJobs_recalled_after_response_witness:
  "timer_as_wanted idle_a
   \<and> find (\<lambda>j. job_id j = job_id job_a_completed) [job_a_completed] = Some job_a_completed
   \<and> status job_a_completed = ''completed''
   \<and> jobs (cycle idle_a (Jobs_arrive (Some job_a_completed) (Success [job_a_completed])))
       = [job_a_completed]
   \<and> isPolling (cycle idle_a (Jobs_arrive (Some job_a_completed) (Success [job_a_completed])))
       = False
   \<and> interval (cycle idle_a (Jobs_arrive (Some job_a_completed) (Success [job_a_completed])))
       = None
   \<and> count_list (http_log idle_a) Get_jobs = 0
   \<and> count_list
        (http_log (cycle idle_a (Jobs_arrive (Some job_a_completed) (Success [job_a_completed]))))
        Get_jobs = 1"
proof -
  have timer: "timer_as_wanted idle_a"
    by (simp add: timer_as_wanted_def polling_wanted_def idle_a_def dashboard_init_def
        job_a_completed_def job_a_running_def)
  have found: "find (\<lambda>j. job_id j = job_id job_a_completed) [job_a_completed]
      = Some job_a_completed"
    by simp
  have before: "isPolling idle_a = False" "count_list (http_log idle_a) Get_jobs = 0"
    by (simp_all add: idle_a_def dashboard_init_def)
  have terminal: "status job_a_completed = ''completed''"
    "polling_wanted (st\<lparr>jobs := [job_a_completed], isPolling := False\<rparr>) = False" for st
    by (simp_all add: polling_wanted_def job_a_completed_def job_a_running_def)
  from loadJobs_recalled_after_response [OF timer found]
  have after: "(interval (cycle idle_a (Jobs_arrive (Some job_a_completed) (Success [job_a_completed]))) \<noteq> None)
       = polling_wanted (cycle idle_a (Jobs_arrive (Some job_a_completed) (Success [job_a_completed])))"
    "jobs (cycle idle_a (Jobs_arrive (Some job_a_completed) (Success [job_a_completed])))
       = [job_a_completed]"
    "isPolling (cycle idle_a (Jobs_arrive (Some job_a_completed) (Success [job_a_completed])))
       = isPolling idle_a"
    "count_list
      (http_log (cycle idle_a (Jobs_arrive (Some job_a_completed) (Success [job_a_completed]))))
      Get_jobs = Suc (count_list (http_log idle_a) Get_jobs)"
    by blast+
  have off: "polling_wanted (cycle idle_a (Jobs_arrive (Some job_a_completed) (Success [job_a_completed])))
      = False"
    using after(2,3) before(1)
    by (simp add: polling_wanted_def job_a_completed_def job_a_running_def)
  from timer found terminal(1) before after off show ?thesis
    by simp
qed

section \<open>Properties of the frame cursor\<close>

lemma currentFrame_polling_effect: "currentFrame (polling_effect prev st) = currentFrame st"
  by (simp add: polling_effect_def)

lemma currentFrame_step:
  "(\<exists>points. e = Plot_click points) \<or> (\<exists>n. e = Viewer_frame n)
   \<or> currentFrame (step st e) = currentFrame st"
proof (cases e)
  case (Jobs_arrive sel resp)
  then show ?thesis by (simp add: step_def currentFrame_polling_effect loadJobs_done_frame)
next
  case (Results_arrive jobId resp)
  then show ?thesis by (simp add: step_def currentFrame_polling_effect loadResults_done_frame)
next
  case Submit_click
  then show ?thesis by (simp add: step_def currentFrame_polling_effect submit_click_frame)
next
  case (Submit_arrive resp)
  then show ?thesis by (simp add: step_def currentFrame_polling_effect startPipeline_done_frame)
next
  case Cancel_click
  then show ?thesis
    by (simp add: step_def currentFrame_polling_effect cancelJob_fetch_def split: option.splits)
next
  case (Cancel_arrive resp)
  then show ?thesis by (simp add: step_def currentFrame_polling_effect cancelJob_done_frame)
qed (simp_all add: step_def currentFrame_polling_effect select_job_def loadJobs_fetch_def)

text \<open>
  Claim C6, as the code has it. The cursor is 0 when the dashboard mounts. Selecting a job
  and replacing the result set leave it where it is; of all events only a click on a plot
  marker and a frame reported by the viewer can move it.
\<close>

theorem cursor_kept_on_selection:
  "currentFrame dashboard_init = 0
   \<and> currentFrame (select_job j st) = currentFrame st
   \<and> currentFrame (step st (Job_click j)) = currentFrame st
   \<and> currentFrame (step st (Results_arrive jobId resp)) = currentFrame st
   \<and> ((\<exists>points. e = Plot_click points) \<or> (\<exists>n. e = Viewer_frame n)
       \<or> currentFrame (step st e) = currentFrame st)"
proof -
  have init: "currentFrame dashboard_init = 0"
    by (simp add: dashboard_init_def)
  have sel: "currentFrame (select_job j st) = currentFrame st"
    by (simp add: select_job_def)
  from init sel currentFrame_step [of "Job_click j" st]
    currentFrame_step [of "Results_arrive jobId resp" st] currentFrame_step [of e st]
  show ?thesis by simp
qed

theorem cursor_kept_on_selection_witness:
  "selectedJob (step viewing_b (Job_click job_a_completed)) = Some job_a_completed
   \<and> currentFrame (step viewing_b (Job_click job_a_completed)) = 5"
proof -
  have before: "currentFrame viewing_b = 5"
    by (simp add: viewing_b_def)
  have sel: "selectedJob (step viewing_b (Job_click job_a_completed)) = Some job_a_completed"
    by (simp add: step_def polling_effect_def select_job_def viewing_b_def)
  show ?thesis
    using cursor_kept_on_selection [of job_a_completed viewing_b "''a''" Network_error
        "Job_click job_a_completed"] before sel
    by simp
qed

text \<open>
  Claim C6, as stated, fails: with job \<open>b\<close> selected and the cursor at 5, a click on the
  card of job \<open>a\<close> selects \<open>a\<close> and the cursor is still 5; the arrival of a new result
  set replaces the results and the cursor is still 5.
\<close>

theorem cursor_not_reset_counterexample:
  "currentFrame viewing_b = 5
   \<and> selectedJob viewing_b = Some job_b
   \<and> selectedJob (step viewing_b (Job_click job_a_completed)) = Some job_a_completed
   \<and> currentFrame (step viewing_b (Job_click job_a_completed)) = 5
   \<and> results (step viewing_b (Results_arrive ''a'' (Success results_a))) = Some results_a
   \<and> currentFrame (step viewing_b (Results_arrive ''a'' (Success results_a))) = 5"
  by (simp add: step_def polling_effect_def select_job_def loadResults_done_def viewing_b_def
      dashboard_init_def)

lemma plot_click_step:
  assumes "selectedJob st \<noteq> None" and "activeTab st = ''visualization''"
    and "p \<in> set (plot_data (render_plot st))"
  shows "step st (Plot_click (clicked_point p)) = st\<lparr>currentFrame := frame p\<rparr>"
proof -
  from assms(3) have "plot_data (render_plot st) \<noteq> []"
    by auto
  with assms(1,2) have "handle (Plot_click (clicked_point p)) st = st\<lparr>currentFrame := frame p\<rparr>"
    by (simp add: visualization_tab_def handlePointClick_def handlePCAPointClick_def
        clicked_point_def)
  then show ?thesis
    by (simp add: step_def polling_effect_def)
qed

text \<open>
  Claim C8. The visualization tab is shown and \<open>p\<close> is a point of the PCA data; the user
  clicks its marker. Then the cursor is the frame of \<open>p\<close>; the viewer and the plot are
  both rendered with that frame; the plot, over the same data, draws with the highlight
  size exactly the points whose frame is that of \<open>p\<close>, \<open>p\<close> among them; a viewer that is
  ready, not playing and has that frame moves to it; and when the viewer reports the frame
  back, nothing changes any more.
\<close>

theorem plot_click_round_trip:
  assumes "selectedJob st \<noteq> None" and "activeTab st = ''visualization''"
    and "p \<in> set (plot_data (render_plot st))"
  shows "currentFrame (step st (Plot_click (clicked_point p))) = frame p
    \<and> viewer_frame (render_viewer (step st (Plot_click (clicked_point p)))) = frame p
    \<and> plot_frame (render_plot (step st (Plot_click (clicked_point p)))) = frame p
    \<and> plot_data (render_plot (step st (Plot_click (clicked_point p)))) = plot_data (render_plot st)
    \<and> (\<forall>q \<in> set (plot_data (render_plot (step st (Plot_click (clicked_point p))))).
          (marker_size (plot_frame (render_plot (step st (Plot_click (clicked_point p))))) q = 12)
            = (frame q = frame p))
    \<and> marker_size (plot_frame (render_plot (step st (Plot_click (clicked_point p))))) p = 12
    \<and> (plugin_ready v \<and> \<not> isPlaying v \<and> 0 \<le> frame p \<and> frame p < total (frameInfo v) \<longrightarrow>
          current (frameInfo (frame_prop_effect Frame_set
            (viewer_frame (render_viewer (step st (Plot_click (clicked_point p))))) v)) = frame p)
    \<and> step (step st (Plot_click (clicked_point p))) (Viewer_frame (frame p))
         = step st (Plot_click (clicked_point p))"
proof -
  note after = plot_click_step [OF assms]
  have again: "step (st\<lparr>currentFrame := frame p\<rparr>) (Viewer_frame (frame p))
      = st\<lparr>currentFrame := frame p\<rparr>"
    by (simp add: step_def polling_effect_def)
  have viewer: "plugin_ready v \<and> \<not> isPlaying v \<and> 0 \<le> frame p \<and> frame p < total (frameInfo v) \<longrightarrow>
      current (frameInfo (frame_prop_effect Frame_set (frame p) v)) = frame p"
    by (simp add: frame_prop_effect_def goToFrame_def)
  show ?thesis
    unfolding after again using viewer
    by (simp add: render_viewer_def render_plot_def marker_size_def)
qed

theorem plot_click_round_trip_witness:
  "selectedJob viewing_a \<noteq> None
   \<and> activeTab viewing_a = ''visualization''
   \<and> pca_one \<in> set (plot_data (render_plot viewing_a))
   \<and> frame pca_one = 1
   \<and> currentFrame (step viewing_a (Plot_click (clicked_point pca_one))) = frame pca_one
   \<and> viewer_frame (render_viewer (step viewing_a (Plot_click (clicked_point pca_one))))
        = frame pca_one
   \<and> current (frameInfo (frame_prop_effect Frame_set
        (viewer_frame (render_viewer (step viewing_a (Plot_click (clicked_point pca_one)))))
        viewer_five)) = frame pca_one"
proof -
  have shown: "selectedJob viewing_a \<noteq> None" "activeTab viewing_a = ''visualization''"
    by (simp_all add: viewing_a_def)
  have present: "pca_one \<in> set (plot_data (render_plot viewing_a))"
    by (simp add: render_plot_def viewing_a_def results_a_def pca_two_def)
  have f: "frame pca_one = 1"
    by (simp add: pca_one_def)
  have ready: "plugin_ready viewer_five \<and> \<not> isPlaying viewer_five \<and> 0 \<le> frame pca_one
      \<and> frame pca_one < total (frameInfo viewer_five)"
    by (simp add: viewer_five_def pca_one_def)
  from plot_click_round_trip [OF shown present, of viewer_five] ready
  have "currentFrame (step viewing_a (Plot_click (clicked_point pca_one))) = frame pca_one
    \<and> viewer_frame (render_viewer (step viewing_a (Plot_click (clicked_point pca_one))))
        = frame pca_one
    \<and> current (frameInfo (frame_prop_effect Frame_set
        (viewer_frame (render_viewer (step viewing_a (Plot_click (clicked_point pca_one)))))
        viewer_five)) = frame pca_one"
    by blast
  with shown present f show ?thesis
    by blast
qed

section \<open>Properties of the result set\<close>

lemma results_polling_effect: "results (polling_effect prev st) = results st"
  by (simp add: polling_effect_def)

lemma results_step:
  "(\<exists>jobId r. e = Results_arrive jobId (Success r)) \<or> results (step st e) = results st"
proof (cases e)
  case (Jobs_arrive sel resp)
  then show ?thesis by (simp add: step_def results_polling_effect loadJobs_done_frame)
next
  case (Results_arrive jobId resp)
  then show ?thesis
    by (cases resp) (simp_all add: step_def results_polling_effect loadResults_done_def)
next
  case Submit_click
  then show ?thesis by (simp add: step_def results_polling_effect submit_click_frame)
next
  case (Submit_arrive resp)
  then show ?thesis by (simp add: step_def results_polling_effect startPipeline_done_frame)
next
  case Cancel_click
  then show ?thesis
    by (simp add: step_def results_polling_effect cancelJob_fetch_def split: option.splits)
next
  case (Cancel_arrive resp)
  then show ?thesis by (simp add: step_def results_polling_effect cancelJob_done_frame)
next
  case (Plot_click points)
  then show ?thesis by (simp add: step_def results_polling_effect handlePointClick_frame)
qed (simp_all add: step_def results_polling_effect select_job_def loadJobs_fetch_def)

text \<open>
  Claim C10. A click on the card of a job \<open>j\<close> of the list selects \<open>j\<close> and leaves the
  result set as it was: the viewer and the plot are rendered from the same results as
  before the click, and so are the visualization and the results tab, now under the
  selection \<open>j\<close>. Of all events only the arrival of an ok results response changes the
  result set.
\<close>

theorem selection_keeps_results:
  assumes "j \<in> set (jobs st)"
  shows "selectedJob (step st (Job_click j)) = Some j
   \<and> results (step st (Job_click j)) = results st
   \<and> render_viewer (step st (Job_click j)) = render_viewer st
   \<and> render_plot (step st (Job_click j)) = render_plot st
   \<and> visualization_tab (step st (Job_click j)) =
       (if activeTab st = ''visualization'' then Some (render_viewer st, render_plot st) else None)
   \<and> results_tab (step st (Job_click j)) =
       (if activeTab st = ''results''
        then Some (map_option (\<lambda>r. (length (molecules r), metrics r)) (results st)) else None)
   \<and> ((\<exists>jobId r. e = Results_arrive jobId (Success r)) \<or> results (step st e) = results st)"
proof -
  from assms have click: "step st (Job_click j) = polling_effect st (st\<lparr>selectedJob := Some j\<rparr>)"
    by (simp add: step_def select_job_def)
  have fields: "results (step st (Job_click j)) = results st"
    "selectedJob (step st (Job_click j)) = Some j"
    "activeTab (step st (Job_click j)) = activeTab st"
    "currentFrame (step st (Job_click j)) = currentFrame st"
    unfolding click by (simp_all add: polling_effect_def)
  show ?thesis
    using results_step [of e st]
    by (simp add: fields render_viewer_def render_plot_def visualization_tab_def results_tab_def)
qed

theorem selection_keeps_results_witness:
  "job_b \<in> set (jobs viewing_a)
   \<and> selectedJob viewing_a = Some job_a_completed
   \<and> selectedJob (step viewing_a (Job_click job_b)) = Some job_b
   \<and> results (step viewing_a (Job_click job_b)) = Some results_a
   \<and> plot_data (render_plot (step viewing_a (Job_click job_b))) = pca_two
   \<and> structureUrl (render_viewer (step viewing_a (Job_click job_b))) = Some ''/traj/a.pdb''"
proof -
  have listed: "job_b \<in> set (jobs viewing_a)"
    by (simp add: viewing_a_def)
  have before: "results viewing_a = Some results_a"
    "selectedJob viewing_a = Some job_a_completed"
    by (simp_all add: viewing_a_def)
  have shown: "render_plot viewing_a = \<lparr>plot_data = pca_two, plot_frame = 0\<rparr>"
    "render_viewer viewing_a = \<lparr>structureUrl = Some ''/traj/a.pdb'', viewer_frame = 0\<rparr>"
    by (simp_all add: render_plot_def render_viewer_def viewing_a_def dashboard_init_def
        results_a_def)
  show ?thesis
    using selection_keeps_results [OF listed, of "Job_click job_b"] listed before shown
    by simp
qed

end
